theory Spec2Isabelle
  imports Complex_Main "HOL-Library.Sublist"
begin

section \<open>Python values\<close>

text \<open>
  The orchestrator (\<^verbatim>\<open>service_ui/utils/workflow_manager.py\<close>) stores and inspects
  whatever \<^verbatim>\<open>response.json()\<close> returned, so the values are JSON values. A dictionary
  is an association list whose first binding of a key is the effective one. A float is
  represented by the rational it denotes; the only float literal of the source is 0.7.
\<close>

datatype json =
    JNull
  | JBool bool
  | JInt int
  | JFloat rat
  | JStr string
  | JList "json list"
  | JDict "(string \<times> json) list"

text \<open>The exceptions the orchestrator code can raise on such values.\<close>

datatype pyexc = AttributeError | TypeError | ValueError | KeyError | OverflowError

text \<open>Truth value of an object, as tested by \<^verbatim>\<open>if x:\<close>, \<^verbatim>\<open>x or []\<close> and \<^verbatim>\<open>bool(x)\<close>.\<close>

fun truthy :: "json \<Rightarrow> bool" where
  "truthy JNull = False"
| "truthy (JBool b) = b"
| "truthy (JInt i) = (i \<noteq> 0)"
| "truthy (JFloat r) = (r \<noteq> 0)"
| "truthy (JStr s) = (s \<noteq> [])"
| "truthy (JList xs) = (xs \<noteq> [])"
| "truthy (JDict kvs) = (kvs \<noteq> [])"

text \<open>\<^verbatim>\<open>x or []\<close>\<close>

definition or_empty_list :: "json \<Rightarrow> json" where
  "or_empty_list x = (if truthy x then x else JList [])"

text \<open>\<^verbatim>\<open>d.get(k, default)\<close> on a dictionary.\<close>

definition dict_get :: "(string \<times> json) list \<Rightarrow> string \<Rightarrow> json \<Rightarrow> json" where
  "dict_get kvs k d = (case map_of kvs k of None \<Rightarrow> d | Some v \<Rightarrow> v)"

text \<open>
  \<^verbatim>\<open>x.get(k, default)\<close> on any value: only a dictionary has the method, every other
  value raises AttributeError.
\<close>

fun py_get :: "json \<Rightarrow> string \<Rightarrow> json \<Rightarrow> pyexc + json" where
  "py_get (JDict kvs) k d = Inr (dict_get kvs k d)"
| "py_get _ k d = Inl AttributeError"

text \<open>\<^verbatim>\<open>x[k]\<close> with a string key, used on values whose \<^verbatim>\<open>.get\<close> has already worked.\<close>

fun py_subscript :: "json \<Rightarrow> string \<Rightarrow> pyexc + json" where
  "py_subscript (JDict kvs) k = (case map_of kvs k of None \<Rightarrow> Inl KeyError | Some v \<Rightarrow> Inr v)"
| "py_subscript _ k = Inl TypeError"

text \<open>\<^verbatim>\<open>len(x)\<close>: strings, lists and dictionaries are sized, nothing else is.\<close>

fun py_len :: "json \<Rightarrow> pyexc + nat" where
  "py_len (JStr s) = Inr (length s)"
| "py_len (JList xs) = Inr (length xs)"
| "py_len (JDict kvs) = Inr (length (remdups (map fst kvs)))"
| "py_len _ = Inl TypeError"

text \<open>
  \<^verbatim>\<open>x[:5]\<close>: lists and strings are sliced; a dictionary rejects the slice as a key and
  the other values are not subscriptable (an exception in every such case).
\<close>

fun py_slice5 :: "json \<Rightarrow> pyexc + json" where
  "py_slice5 (JList xs) = Inr (JList (take 5 xs))"
| "py_slice5 (JStr s) = Inr (JStr (take 5 s))"
| "py_slice5 _ = Inl TypeError"

text \<open>
  Whether \<^verbatim>\<open>f"{x:.2f}"\<close> formats: numbers (and booleans, which are integers) do, a
  string raises ValueError, every other value TypeError. An integer is converted to a
  float first, and the conversion raises OverflowError when the integer rounds to a
  magnitude of \<open>2 ^ 1024\<close> or more, the first such magnitude being
  \<open>2 ^ 1024 - 2 ^ 970\<close>, half-way between the largest float and \<open>2 ^ 1024\<close>.
\<close>

definition float_overflow :: "int \<Rightarrow> bool" where
  "float_overflow i \<longleftrightarrow> 2 ^ 1024 - 2 ^ 970 \<le> \<bar>i\<bar>"

fun py_format_2f :: "json \<Rightarrow> pyexc + json" where
  "py_format_2f (JInt i) = (if float_overflow i then Inl OverflowError else Inr (JInt i))"
| "py_format_2f (JFloat r) = Inr (JFloat r)"
| "py_format_2f (JBool b) = Inr (JBool b)"
| "py_format_2f (JStr s) = Inl ValueError"
| "py_format_2f _ = Inl TypeError"

section \<open>The microservice client\<close>

text \<open>
  \<^verbatim>\<open>service_ui/services/microservice_client.py\<close>. What the network answers is the
  input of the model: either the \<^verbatim>\<open>requests\<close> call raises an exception (connection
  refused, timeout, ...) with the text \<^verbatim>\<open>str(e)\<close>, or it returns a response with a
  status code, the text \<^verbatim>\<open>raise_for_status\<close> would put into its HTTPError, and a body
  that either decodes to a JSON value or makes \<^verbatim>\<open>response.json()\<close> raise.
\<close>

datatype http_reply =
    Raises string
  | Response nat string "string + json"

datatype http_request =
    Get string nat
  | Post_json string json "(string \<times> string) list" nat
  | Post_files string "(string \<times> string \<times> string \<times> string) list" "(string \<times> string) list" nat

definition services :: "string \<Rightarrow> string" where
  "services name =
     (if name = ''upload'' then ''http://localhost:8001''
      else if name = ''analysis'' then ''http://localhost:8003''
      else if name = ''trend'' then ''http://localhost:8002''
      else if name = ''generation'' then ''http://localhost:8004''
      else ''http://localhost:8005'')"

definition timeout :: nat where
  "timeout = 120"

text \<open>
  The part of every method after the request is built:
  \<^verbatim>\<open>response = requests.post(...); response.raise_for_status(); return response.json()\<close>.
  \<open>Inl msg\<close> is an exception with \<^verbatim>\<open>str(e) = msg\<close>.
\<close>

fun send :: "http_reply \<Rightarrow> string + json" where
  "send (Raises msg) = Inl msg"
| "send (Response status_code http_error_msg body) =
     (if 400 \<le> status_code \<and> status_code < 600 then Inl http_error_msg
      else case body of Inl msg \<Rightarrow> Inl msg | Inr j \<Rightarrow> Inr j)"

text \<open>\<^verbatim>\<open>except Exception as e: return {"error": str(e), "success": False}\<close>\<close>

definition error_result :: "string \<Rightarrow> json" where
  "error_result msg = JDict [(''error'', JStr msg), (''success'', JBool False)]"

fun except_Exception :: "string + json \<Rightarrow> json" where
  "except_Exception (Inl msg) = error_result msg"
| "except_Exception (Inr j) = j"

text \<open>Decimal digits of a number, for \<^verbatim>\<open>f'image_{i}.jpg'\<close>.\<close>

fun digits :: "nat \<Rightarrow> string" where
  "digits n = (if n < 10 then [char_of (48 + n)] else digits (n div 10) @ [char_of (48 + n mod 10)])"

declare digits.simps [simp del]

definition upload_images_request :: "string list \<Rightarrow> http_request" where
  "upload_images_request files =
     Post_files (services ''upload'' @ ''/upload/images'')
       (map (\<lambda>(i, file_bytes). (''images'', ''image_'' @ digits i @ ''.jpg'', file_bytes, ''image/jpeg''))
            (enumerate 0 files))
       [(''description'', ''AI Instagram Content Generator Upload'')]
       timeout"

definition upload_images :: "string list \<Rightarrow> http_reply \<Rightarrow> json" where
  "upload_images files reply = except_Exception (send reply)"

definition get_youtube_trends_request :: http_request where
  "get_youtube_trends_request = Get (services ''trend'' @ ''/analyzes/youtube'') timeout"

definition get_youtube_trends :: "http_reply \<Rightarrow> json" where
  "get_youtube_trends reply = except_Exception (send reply)"

definition analyze_drive_content_request :: "string option \<Rightarrow> json \<Rightarrow> http_request" where
  "analyze_drive_content_request folder_id keywords =
     Post_json (services ''analysis'' @ ''/analyzes/drive/enhanced'')
       (JDict [(''keywords'', or_empty_list keywords),
               (''description'', JStr ''AI Instagram Content Analysis'')])
       (case folder_id of None \<Rightarrow> [] | Some f \<Rightarrow> (if f = [] then [] else [(''folder_id'', f)]))
       timeout"

definition analyze_drive_content :: "string option \<Rightarrow> json \<Rightarrow> http_reply \<Rightarrow> json" where
  "analyze_drive_content folder_id keywords reply = except_Exception (send reply)"

definition generate_instagram_content_request :: "json \<Rightarrow> json \<Rightarrow> json \<Rightarrow> json \<Rightarrow> json \<Rightarrow> http_request" where
  "generate_instagram_content_request visual_summary keywords video_summary trends style =
     Post_json (services ''generation'' @ ''/generate/poster'')
       (JDict [(''visual_summary'', visual_summary),
               (''video_summary'', video_summary),
               (''keywords'', keywords),
               (''trends'', or_empty_list trends),
               (''poster_style'', style),
               (''include_trends'', JBool (truthy trends))])
       [] 180"

definition generate_instagram_content :: "json \<Rightarrow> json \<Rightarrow> json \<Rightarrow> json \<Rightarrow> json \<Rightarrow> http_reply \<Rightarrow> json" where
  "generate_instagram_content visual_summary keywords video_summary trends style reply =
     except_Exception (send reply)"

definition assess_image_quality_request :: "json \<Rightarrow> json \<Rightarrow> http_request" where
  "assess_image_quality_request image_path prompt =
     Post_json (services ''quality'' @ ''/quality/assess'')
       (JDict [(''image_path'', image_path), (''prompt'', prompt)]) [] timeout"

definition assess_image_quality :: "json \<Rightarrow> json \<Rightarrow> http_reply \<Rightarrow> json" where
  "assess_image_quality image_path prompt reply = except_Exception (send reply)"

definition finalize_content_request :: "json \<Rightarrow> json \<Rightarrow> json \<Rightarrow> json \<Rightarrow> json \<Rightarrow> http_request" where
  "finalize_content_request image_path original_prompt style platform max_hashtags =
     Post_json (services ''quality'' @ ''/quality/finalize'')
       (JDict [(''image_path'', image_path),
               (''original_prompt'', original_prompt),
               (''style'', style),
               (''platform'', platform),
               (''max_hashtags'', max_hashtags)])
       [] timeout"

definition finalize_content :: "json \<Rightarrow> json \<Rightarrow> json \<Rightarrow> json \<Rightarrow> json \<Rightarrow> http_reply \<Rightarrow> json" where
  "finalize_content image_path original_prompt style platform max_hashtags reply =
     except_Exception (send reply)"

section \<open>The run state\<close>

text \<open>
  \<^verbatim>\<open>service_ui/utils/workflow_manager.py\<close>. The dictionary
  \<^verbatim>\<open>st.session_state.workflow_state\<close> is a record of the keys the code uses; the keys
  \<^verbatim>\<open>keywords\<close> and \<^verbatim>\<open>description\<close> (the fields \<open>stored_keywords\<close> and
  \<open>stored_description\<close>) are absent until an upload stores them, and
  \<open>other_keys\<close> holds any further key a caller has put into the dictionary. Two fields
  are not in the dictionary: \<open>requests\<close>, the HTTP requests the client has made, in
  order, and \<open>clock\<close> with \<open>ticks\<close>, the reading of \<^verbatim>\<open>time.strftime("%H:%M:%S")\<close> at
  its n-th call.
\<close>

datatype severity = Info | Success | Error | Warning

text \<open>
  The texts of the log, one constructor for each f-string of the source with the values
  it interpolates (the line of the \<^verbatim>\<open>add_status_log\<close> call is given).
\<close>

datatype message =
    Msg_uploading                  \<comment> \<open>line 47\<close>
  | Msg_uploaded json              \<comment> \<open>line 65, uploaded_count\<close>
  | Msg_ready_for_process          \<comment> \<open>line 66\<close>
  | Msg_upload_error json          \<comment> \<open>line 70, error_msg\<close>
  | Msg_upload_exception pyexc     \<comment> \<open>line 74\<close>
  | Msg_process_starting           \<comment> \<open>line 80\<close>
  | Msg_trend_running              \<comment> \<open>line 83\<close>
  | Msg_trend_error json           \<comment> \<open>line 87, trend_result['error']\<close>
  | Msg_trend_done nat             \<comment> \<open>line 92, trend_count\<close>
  | Msg_analysing                  \<comment> \<open>line 95\<close>
  | Msg_analysis_error json        \<comment> \<open>line 102, analysis_result['error']\<close>
  | Msg_analysis_done nat          \<comment> \<open>line 107, keyword_count\<close>
  | Msg_process_done               \<comment> \<open>line 111\<close>
  | Msg_process_exception pyexc    \<comment> \<open>line 115\<close>
  | Msg_generation_starting        \<comment> \<open>line 121\<close>
  | Msg_prompt_prepared nat nat    \<comment> \<open>line 132, len(keywords), len(trends)\<close>
  | Msg_generation_error json      \<comment> \<open>line 144, generation_result['error']\<close>
  | Msg_image_generated json       \<comment> \<open>line 149, filename\<close>
  | Msg_generation_exception pyexc \<comment> \<open>line 156\<close>
  | Msg_quality_starting           \<comment> \<open>line 162\<close>
  | Msg_quality_error json         \<comment> \<open>line 174, quality_result['error']\<close>
  | Msg_quality_score json         \<comment> \<open>line 181, quality_score\<close>
  | Msg_finalizing                 \<comment> \<open>line 184\<close>
  | Msg_finalize_error json        \<comment> \<open>line 195, finalize_result['error']\<close>
  | Msg_content_ready nat          \<comment> \<open>line 211, hashtag_count\<close>
  | Msg_ready_to_publish           \<comment> \<open>line 212\<close>
  | Msg_quality_exception pyexc    \<comment> \<open>line 217\<close>

record log_entry =
  time :: string
  message :: message
  status :: severity

record workflow_state =
  step :: nat
  trend_data :: json
  analysis_data :: json
  generation_data :: json
  quality_data :: json
  uploaded_files :: json
  status_logs :: "log_entry list"
  final_output :: json
  stored_keywords :: "json option"
  stored_description :: "json option"
  other_keys :: "(string \<times> json) list"
  requests :: "http_request list"
  clock :: "nat \<Rightarrow> string"
  ticks :: nat

definition reset_workflow_state :: "workflow_state \<Rightarrow> workflow_state" where
  "reset_workflow_state w =
     w\<lparr>step := 0, trend_data := JNull, analysis_data := JNull, generation_data := JNull,
       quality_data := JNull, uploaded_files := JList [], status_logs := [],
       final_output := JNull, stored_keywords := None, stored_description := None, other_keys := []\<rparr>"

definition add_status_log :: "message \<Rightarrow> severity \<Rightarrow> workflow_state \<Rightarrow> workflow_state" where
  "add_status_log m s w =
     w\<lparr>status_logs := status_logs w @ [\<lparr>time = clock w (ticks w), message = m, status = s\<rparr>],
       ticks := Suc (ticks w)\<rparr>"

definition get_status_logs :: "workflow_state \<Rightarrow> log_entry list" where
  "get_status_logs w = status_logs w"

definition get_current_step :: "workflow_state \<Rightarrow> nat" where
  "get_current_step w = step w"

text \<open>The client makes a request: it is added to the trace.\<close>

definition request :: "http_request \<Rightarrow> workflow_state \<Rightarrow> workflow_state" where
  "request r w = w\<lparr>requests := requests w @ [r]\<rparr>"

text \<open>
  A statement inside \<^verbatim>\<open>try:\<close> that may raise: on an exception the body stops with the
  state reached so far, otherwise it goes on with the value.
\<close>

definition raising :: "pyexc + 'a \<Rightarrow> workflow_state \<Rightarrow> ('a \<Rightarrow> (pyexc + bool) \<times> workflow_state)
    \<Rightarrow> (pyexc + bool) \<times> workflow_state" where
  "raising x w k = (case x of Inl e \<Rightarrow> (Inl e, w) | Inr v \<Rightarrow> k v)"

text \<open>
  \<^verbatim>\<open>except Exception as e: self.add_status_log(..., "error"); return False\<close>, the
  handler every operation ends with.
\<close>

definition except_log :: "(pyexc \<Rightarrow> message) \<Rightarrow> (pyexc + bool) \<times> workflow_state \<Rightarrow> bool \<times> workflow_state" where
  "except_log msg r =
     (case r of (Inl e, w) \<Rightarrow> (False, add_status_log (msg e) Error w) | (Inr b, w) \<Rightarrow> (b, w))"

section \<open>upload_materials\<close>

text \<open>
  An uploaded file is read from its start; reading a closed file raises ValueError.
\<close>

datatype uploaded_file = Open_file string | Closed_file

fun read_files :: "uploaded_file list \<Rightarrow> pyexc + string list" where
  "read_files [] = Inr []"
| "read_files (Closed_file # fs) = Inl ValueError"
| "read_files (Open_file b # fs) = (case read_files fs of Inl e \<Rightarrow> Inl e | Inr bs \<Rightarrow> Inr (b # bs))"

definition upload_materials_try :: "uploaded_file list \<Rightarrow> json \<Rightarrow> json \<Rightarrow> http_reply
    \<Rightarrow> workflow_state \<Rightarrow> (pyexc + bool) \<times> workflow_state" where
  "upload_materials_try files kws descr reply w =
     (let w1 = add_status_log Msg_uploading Info w in
      raising (read_files files) w1 (\<lambda>file_bytes_list.
      let upload_result = upload_images file_bytes_list reply;
          w2 = request (upload_images_request file_bytes_list) w1 in
      raising (py_get upload_result ''success'' (JBool False)) w2 (\<lambda>ok.
      if truthy ok then
        raising (py_get upload_result ''assets'' (JDict [])) w2 (\<lambda>assets.
        raising (py_get assets ''images'' (JList [])) w2 (\<lambda>images.
        let w3 = w2\<lparr>uploaded_files := images, stored_keywords := Some kws,
                     stored_description := Some descr, step := 1\<rparr> in
        raising (py_get upload_result ''uploaded_count'' (JInt (int (length files)))) w3 (\<lambda>uploaded_count.
        (Inr True, add_status_log Msg_ready_for_process Info
                     (add_status_log (Msg_uploaded uploaded_count) Success w3)))))
      else
        raising (py_get upload_result ''error'' (JStr ''Bilinmeyen hata'')) w2 (\<lambda>error_msg.
        (Inr False, add_status_log (Msg_upload_error error_msg) Error w2)))))"

definition upload_materials :: "uploaded_file list \<Rightarrow> json \<Rightarrow> json \<Rightarrow> http_reply
    \<Rightarrow> workflow_state \<Rightarrow> bool \<times> workflow_state" where
  "upload_materials files kws descr reply w =
     except_log Msg_upload_exception (upload_materials_try files kws descr reply w)"

section \<open>start_process\<close>

definition empty_trend_data :: json where
  "empty_trend_data = JDict [(''trends'', JList []), (''hashtags'', JList [])]"

text \<open>Lines 94 to 112: the analysis of the materials, after the trend data is stored.\<close>

definition start_process_analysis :: "http_reply \<Rightarrow> workflow_state
    \<Rightarrow> (pyexc + bool) \<times> workflow_state" where
  "start_process_analysis analysis_reply w =
     (let w1 = add_status_log Msg_analysing Info w;
          kws = (case stored_keywords w1 of None \<Rightarrow> JList [] | Some k \<Rightarrow> k);
          analysis_result = analyze_drive_content None kws analysis_reply;
          w2 = request (analyze_drive_content_request None kws) w1 in
      raising (py_get analysis_result ''error'' JNull) w2 (\<lambda>analysis_error.
      if truthy analysis_error then
        raising (py_subscript analysis_result ''error'') w2 (\<lambda>err.
        (Inr False, add_status_log (Msg_analysis_error err) Error w2))
      else
        (let w3 = w2\<lparr>analysis_data := analysis_result\<rparr> in
         raising (py_get analysis_result ''keywords'' (JList [])) w3 (\<lambda>ks.
         raising (py_len ks) w3 (\<lambda>keyword_count.
         (Inr True, add_status_log Msg_process_done Success
                      ((add_status_log (Msg_analysis_done keyword_count) Success w3)
                         \<lparr>step := 2\<rparr>)))))))"

definition start_process_try :: "http_reply \<Rightarrow> http_reply \<Rightarrow> workflow_state
    \<Rightarrow> (pyexc + bool) \<times> workflow_state" where
  "start_process_try trend_reply analysis_reply w =
     (let w1 = add_status_log Msg_trend_running Info (add_status_log Msg_process_starting Info w);
          trend_result = get_youtube_trends trend_reply;
          w2 = request get_youtube_trends_request w1 in
      raising (py_get trend_result ''error'' JNull) w2 (\<lambda>trend_error.
      if truthy trend_error then
        raising (py_subscript trend_result ''error'') w2 (\<lambda>err.
        start_process_analysis analysis_reply
          ((add_status_log (Msg_trend_error err) Warning w2)\<lparr>trend_data := empty_trend_data\<rparr>))
      else
        (let w3 = w2\<lparr>trend_data := trend_result\<rparr> in
         raising (py_get trend_result ''trends'' (JList [])) w3 (\<lambda>trends.
         raising (py_len trends) w3 (\<lambda>trend_count.
         start_process_analysis analysis_reply
           (add_status_log (Msg_trend_done trend_count) Success w3))))))"

definition start_process :: "http_reply \<Rightarrow> http_reply \<Rightarrow> workflow_state \<Rightarrow> bool \<times> workflow_state" where
  "start_process trend_reply analysis_reply w =
     except_log Msg_process_exception (start_process_try trend_reply analysis_reply w)"

section \<open>generate_content\<close>

definition generate_content_try :: "json \<Rightarrow> http_reply \<Rightarrow> workflow_state
    \<Rightarrow> (pyexc + bool) \<times> workflow_state" where
  "generate_content_try style reply w =
     (let w1 = add_status_log Msg_generation_starting Info w in
      raising (py_get (analysis_data w1) ''visual_summary'' (JStr ''AI generated content'')) w1 (\<lambda>visual_summary.
      raising (py_get (analysis_data w1) ''video_summary'' (JStr [])) w1 (\<lambda>video_summary.
      raising (py_get (analysis_data w1) ''keywords'' (JList [])) w1 (\<lambda>kws.
      raising (py_get (trend_data w1) ''trends'' (JList [])) w1 (\<lambda>all_trends.
      raising (py_slice5 all_trends) w1 (\<lambda>trends.
      raising (py_len kws) w1 (\<lambda>keyword_count.
      raising (py_len trends) w1 (\<lambda>trend_count.
      let w2 = add_status_log (Msg_prompt_prepared keyword_count trend_count) Info w1;
          generation_result =
            generate_instagram_content visual_summary kws video_summary trends style reply;
          w3 = request (generate_instagram_content_request visual_summary kws video_summary trends style) w2 in
      raising (py_get generation_result ''error'' JNull) w3 (\<lambda>generation_error.
      if truthy generation_error then
        raising (py_subscript generation_result ''error'') w3 (\<lambda>err.
        (Inr False, add_status_log (Msg_generation_error err) Error w3))
      else
        (let w4 = w3\<lparr>generation_data := generation_result\<rparr> in
         raising (py_get generation_result ''filename'' (JStr ''Bilinmiyor'')) w4 (\<lambda>filename.
         (Inr True, (add_status_log (Msg_image_generated filename) Success w4)\<lparr>step := 3\<rparr>))))))))))))"

definition generate_content :: "json \<Rightarrow> http_reply \<Rightarrow> workflow_state \<Rightarrow> bool \<times> workflow_state" where
  "generate_content style reply w =
     except_log Msg_generation_exception (generate_content_try style reply w)"

section \<open>assess_quality\<close>

definition default_quality_score :: json where
  "default_quality_score = JFloat (7 / 10)"

text \<open>Lines 183 to 214: the finalisation, once the quality score is known.\<close>

definition assess_quality_finalize :: "json \<Rightarrow> json \<Rightarrow> json \<Rightarrow> json \<Rightarrow> json \<Rightarrow> http_reply
    \<Rightarrow> workflow_state \<Rightarrow> (pyexc + bool) \<times> workflow_state" where
  "assess_quality_finalize generation image_path prompt quality_result quality_score reply w =
     (let w1 = add_status_log Msg_finalizing Info w;
          finalize_result =
            finalize_content image_path prompt (JStr ''modern'') (JStr ''instagram'') (JInt 15) reply;
          w2 = request (finalize_content_request image_path prompt
                          (JStr ''modern'') (JStr ''instagram'') (JInt 15)) w1 in
      raising (py_get finalize_result ''error'' JNull) w2 (\<lambda>finalize_error.
      if truthy finalize_error then
        raising (py_subscript finalize_result ''error'') w2 (\<lambda>err.
        (Inr False, add_status_log (Msg_finalize_error err) Error w2))
      else
        (let output = JDict [(''image_data'', generation),
                             (''quality_data'', quality_result),
                             (''finalized_content'', finalize_result),
                             (''quality_score'', quality_score)];
             w3 = w2\<lparr>quality_data := quality_result, final_output := output, step := 4\<rparr> in
         raising (py_get finalize_result ''finalized_content'' (JDict [])) w3 (\<lambda>content.
         raising (py_get content ''hashtags'' (JList [])) w3 (\<lambda>hashtags.
         raising (py_len hashtags) w3 (\<lambda>hashtag_count.
         (Inr True, add_status_log Msg_ready_to_publish Success
                      (add_status_log (Msg_content_ready hashtag_count) Success w3))))))))"

definition assess_quality_try :: "http_reply \<Rightarrow> http_reply \<Rightarrow> workflow_state
    \<Rightarrow> (pyexc + bool) \<times> workflow_state" where
  "assess_quality_try quality_reply finalize_reply w =
     (let w1 = add_status_log Msg_quality_starting Info w;
          generation = generation_data w1 in
      raising (py_get generation ''image_path'' (JStr [])) w1 (\<lambda>image_path.
      raising (py_get (analysis_data w1) ''visual_summary'' (JStr ''AI generated content'')) w1 (\<lambda>prompt.
      let quality_result = assess_image_quality image_path prompt quality_reply;
          w2 = request (assess_image_quality_request image_path prompt) w1 in
      raising (py_get quality_result ''error'' JNull) w2 (\<lambda>quality_error.
      if truthy quality_error then
        raising (py_subscript quality_result ''error'') w2 (\<lambda>err.
        assess_quality_finalize generation image_path prompt quality_result default_quality_score
          finalize_reply (add_status_log (Msg_quality_error err) Warning w2))
      else
        raising (py_get quality_result ''quality_assessment'' (JDict [])) w2 (\<lambda>quality_assessment.
        raising (py_get quality_assessment ''overall_score'' (JDict [])) w2 (\<lambda>overall_score.
        raising (py_get overall_score ''overall_score'' default_quality_score) w2 (\<lambda>quality_score.
        raising (py_format_2f quality_score) w2 (\<lambda>shown.
        assess_quality_finalize generation image_path prompt quality_result quality_score
          finalize_reply (add_status_log (Msg_quality_score shown) Info w2)))))))))"

definition assess_quality :: "http_reply \<Rightarrow> http_reply \<Rightarrow> workflow_state \<Rightarrow> bool \<times> workflow_state" where
  "assess_quality quality_reply finalize_reply w =
     except_log Msg_quality_exception (assess_quality_try quality_reply finalize_reply w)"

text \<open>
  \<^verbatim>\<open>get_workflow_data(key)\<close> is \<^verbatim>\<open>workflow_state.get(key)\<close>: the list of log
  entries under \<^verbatim>\<open>status_logs\<close>, the JSON value under every other key, and
  \<^verbatim>\<open>None\<close> for a key the dictionary does not have.
\<close>

datatype workflow_value = Json json | Logs "log_entry list"

definition get_workflow_data :: "string \<Rightarrow> workflow_state \<Rightarrow> workflow_value" where
  "get_workflow_data key w =
     (if key = ''step'' then Json (JInt (int (step w)))
      else if key = ''trend_data'' then Json (trend_data w)
      else if key = ''analysis_data'' then Json (analysis_data w)
      else if key = ''generation_data'' then Json (generation_data w)
      else if key = ''quality_data'' then Json (quality_data w)
      else if key = ''uploaded_files'' then Json (uploaded_files w)
      else if key = ''status_logs'' then Logs (status_logs w)
      else if key = ''final_output'' then Json (final_output w)
      else if key = ''keywords'' then Json (case stored_keywords w of None \<Rightarrow> JNull | Some k \<Rightarrow> k)
      else if key = ''description'' then Json (case stored_description w of None \<Rightarrow> JNull | Some d \<Rightarrow> d)
      else Json (dict_get (other_keys w) key JNull))"

section \<open>Sequences of operations\<close>

datatype operation =
    Upload_materials "uploaded_file list" json json http_reply
  | Start_process http_reply http_reply
  | Generate_content json http_reply
  | Assess_quality http_reply http_reply

fun perform :: "operation \<Rightarrow> workflow_state \<Rightarrow> bool \<times> workflow_state" where
  "perform (Upload_materials files kws descr reply) w = upload_materials files kws descr reply w"
| "perform (Start_process trend_reply analysis_reply) w = start_process trend_reply analysis_reply w"
| "perform (Generate_content style reply) w = generate_content style reply w"
| "perform (Assess_quality quality_reply finalize_reply) w = assess_quality quality_reply finalize_reply w"

fun run :: "operation list \<Rightarrow> workflow_state \<Rightarrow> workflow_state" where
  "run [] w = w"
| "run (operation # rest) w = run rest (snd (perform operation w))"

section \<open>Notions used in the statements\<close>

text \<open>
  What the claim calls a dictionary result carrying an \<^verbatim>\<open>"error"\<close> field with the
  failure message, and \<^verbatim>\<open>success = False\<close>.
\<close>

definition carries_error :: "string \<Rightarrow> json \<Rightarrow> bool" where
  "carries_error msg r \<longleftrightarrow>
     py_subscript r ''error'' = Inr (JStr msg) \<and> py_subscript r ''success'' = Inr (JBool False)"

text \<open>
  The three ways a call fails: the \<^verbatim>\<open>requests\<close> call raises (connection refused,
  timeout), the response has an error status (400 to 599), or its body is not JSON.
\<close>

fun failed_with :: "string \<Rightarrow> http_reply \<Rightarrow> bool" where
  "failed_with msg (Raises m) = (m = msg)"
| "failed_with msg (Response status_code http_error_msg body) =
     (if 400 \<le> status_code \<and> status_code < 600 then http_error_msg = msg
      else body = Inl msg)"

text \<open>
  Every other reply is answered: a response whose status is no error status and whose
  body decodes to a JSON value.
\<close>

fun answered :: "json \<Rightarrow> http_reply \<Rightarrow> bool" where
  "answered j (Raises m) = False"
| "answered j (Response status_code http_error_msg body) =
     (\<not> (400 \<le> status_code \<and> status_code < 600) \<and> body = Inr j)"

text \<open>
  The orchestrator takes a gateway call for failed when its result is a dictionary with a
  true \<^verbatim>\<open>"error"\<close> entry (\<^verbatim>\<open>if result.get('error'):\<close>), and for successful when
  the result is a dictionary without one.
\<close>

definition returns_error :: "json \<Rightarrow> bool" where
  "returns_error r = (case py_get r ''error'' JNull of Inl e \<Rightarrow> False | Inr err \<Rightarrow> truthy err)"

definition returns_success :: "json \<Rightarrow> bool" where
  "returns_success r = (case py_get r ''error'' JNull of Inl e \<Rightarrow> False | Inr err \<Rightarrow> \<not> truthy err)"

definition sized :: "json \<Rightarrow> bool" where
  "sized j = (case py_len j of Inl e \<Rightarrow> False | Inr n \<Rightarrow> True)"

text \<open>
  A successful answer of the analysis service: its \<^verbatim>\<open>"keywords"\<close> entry, when there is
  one, is a list (a sized value), as the service sends it.
\<close>

definition analysis_response :: "json \<Rightarrow> bool" where
  "analysis_response r =
     (returns_success r \<and>
      (case py_get r ''keywords'' (JList []) of Inl e \<Rightarrow> False | Inr ks \<Rightarrow> sized ks))"

fun is_dict :: "json \<Rightarrow> bool" where
  "is_dict (JDict kvs) = True"
| "is_dict _ = False"

fun request_url :: "http_request \<Rightarrow> string" where
  "request_url (Get url t) = url"
| "request_url (Post_json url body params t) = url"
| "request_url (Post_files url files form t) = url"

fun request_body :: "http_request \<Rightarrow> json" where
  "request_body (Post_json url body params t) = body"
| "request_body _ = JNull"

text \<open>What a call has added to the status log and to the trace of requests.\<close>

definition new_entries :: "workflow_state \<Rightarrow> workflow_state \<Rightarrow> log_entry list" where
  "new_entries w w' = drop (length (status_logs w)) (status_logs w')"

definition new_requests :: "workflow_state \<Rightarrow> workflow_state \<Rightarrow> http_request list" where
  "new_requests w w' = drop (length (requests w)) (requests w')"

text \<open>A state to run examples from: the state after \<^verbatim>\<open>reset_workflow_state\<close>.\<close>

definition initial_state :: workflow_state where
  "initial_state =
     \<lparr>step = 0, trend_data = JNull, analysis_data = JNull, generation_data = JNull,
      quality_data = JNull, uploaded_files = JList [], status_logs = [], final_output = JNull,
      stored_keywords = None, stored_description = None, other_keys = [], requests = [],
      clock = (\<lambda>n. ''12:00:00''), ticks = 0\<rparr>"

definition ok_reply :: "json \<Rightarrow> http_reply" where
  "ok_reply j = Response 200 [] (Inr j)"

text \<open>
  The body the trend service sends, with status 200, when its own work has raised an
  exception with the text \<open>msg\<close> (\<^verbatim>\<open>service_trend/routes/analyzes_routes.py\<close>, lines
  31 to 40), and answers of the analysis and the finalize service for the examples.
\<close>

definition trend_fallback_body :: "string \<Rightarrow> json" where
  "trend_fallback_body msg =
     JDict [(''platform'', JStr ''youtube''),
            (''trends'', JList [JStr ''AI Technology'', JStr ''Gaming Setup'',
                                JStr ''Content Creation'']),
            (''hashtags'', JList [JStr ''#AI'', JStr ''#Technology'', JStr ''#Gaming'']),
            (''status'', JStr ''error''),
            (''error'', JStr msg),
            (''data_source'', JStr ''fallback'')]"



definition processed_state :: workflow_state where
  "processed_state =
     initial_state\<lparr>step := 2,
       trend_data := JDict [(''trends'', JList []), (''hashtags'', JList [])],
       analysis_data := JDict [(''visual_summary'', JStr ''a desk''),
                               (''keywords'', JList [JStr ''puzzle'', JStr ''mobile''])]\<rparr>"


text \<open>The requests that go to the quality service, and the one that finalises.\<close>

definition quality_request :: "http_request \<Rightarrow> bool" where
  "quality_request r = prefix (services ''quality'') (request_url r)"

definition finalize_url :: string where
  "finalize_url = services ''quality'' @ ''/quality/finalize''"

text \<open>
  What the body of \<^verbatim>\<open>generate_content\<close> does when the result of the generation
  gateway has a true error entry, and what the finalisation of \<^verbatim>\<open>assess_quality\<close> does for a finalize result
  \<open>fin\<close> and a quality score \<open>score\<close>: the invariants of the two proofs below.
\<close>

definition generate_fails :: "workflow_state \<Rightarrow> (pyexc + bool) \<times> workflow_state \<Rightarrow> bool" where
  "generate_fails w r \<longleftrightarrow>
     fst r \<noteq> Inr True \<and> step (snd r) = step w
     \<and> prefix (status_logs w) (status_logs (snd r))
     \<and> (\<forall>q \<in> set (drop (length (requests w)) (requests (snd r))). \<not> quality_request q)
     \<and> (fst r = Inr False \<longrightarrow>
           status_logs (snd r) \<noteq> [] \<and> status (last (status_logs (snd r))) = Error)"

definition finalize_post :: "workflow_state \<Rightarrow> json \<Rightarrow> json \<Rightarrow> (pyexc + bool) \<times> workflow_state \<Rightarrow> bool" where
  "finalize_post w score fin r \<longleftrightarrow>
     prefix (status_logs w) (status_logs (snd r))
     \<and> (\<exists>rest q. requests (snd r) = requests w @ q # rest \<and> request_url q = finalize_url)
     \<and> (returns_success fin \<longrightarrow>
           step (snd r) = 4 \<and> py_subscript (final_output (snd r)) ''quality_score'' = Inr score)
     \<and> (returns_error fin \<longrightarrow> fst r = Inr False \<and> step (snd r) = step w)"

text \<open>Two operations whose gateways answer well, for the examples.\<close>

definition example_upload :: operation where
  "example_upload =
     Upload_materials [Open_file ''abc''] (JList [JStr ''puzzle'']) (JStr ''my desk'')
       (ok_reply (JDict [(''success'', JBool True),
                         (''assets'', JDict [(''images'', JList [JStr ''id1''])]),
                         (''uploaded_count'', JInt 1)]))"

definition example_process :: operation where
  "example_process =
     Start_process
       (ok_reply (JDict [(''trends'', JList [JStr ''diy'']), (''hashtags'', JList [])]))
       (ok_reply (JDict [(''visual_summary'', JStr ''a desk''),
                         (''keywords'', JList [JStr ''puzzle'', JStr ''mobile''])]))"

text \<open>
  The step each operation writes when it succeeds (lines 62, 110, 152 and 208), the
  steps observed along a sequence of operations, and the sequences in which no operation
  is called once the run is past the step that operation writes.
\<close>

fun target :: "operation \<Rightarrow> nat" where
  "target (Upload_materials files kws descr reply) = 1"
| "target (Start_process trend_reply analysis_reply) = 2"
| "target (Generate_content style reply) = 3"
| "target (Assess_quality quality_reply finalize_reply) = 4"

fun steps :: "operation list \<Rightarrow> workflow_state \<Rightarrow> nat list" where
  "steps [] w = [step w]"
| "steps (operation # rest) w = step w # steps rest (snd (perform operation w))"

fun in_pipeline_order :: "operation list \<Rightarrow> workflow_state \<Rightarrow> bool" where
  "in_pipeline_order [] w = True"
| "in_pipeline_order (operation # rest) w =
     (step w \<le> target operation \<and> in_pipeline_order rest (snd (perform operation w)))"

definition keeps_or_sets :: "workflow_state \<Rightarrow> nat \<Rightarrow> (pyexc + bool) \<times> workflow_state \<Rightarrow> bool" where
  "keeps_or_sets w k r \<longleftrightarrow> step (snd r) = step w \<or> step (snd r) = k"

text \<open>
  An asset is populated when it is neither \<^verbatim>\<open>None\<close> nor the empty list, the two
  values \<^verbatim>\<open>reset_workflow_state\<close> writes.
\<close>

definition populated :: "json \<Rightarrow> bool" where
  "populated j \<longleftrightarrow> j \<noteq> JNull \<and> j \<noteq> JList []"

text \<open>
  The invariant of the operations: the assets of the stages the step has reached are
  dictionaries, and analysis data is never there without trend data.
\<close>

definition assets_reached :: "workflow_state \<Rightarrow> bool" where
  "assets_reached w \<longleftrightarrow>
     (is_dict (analysis_data w) \<longrightarrow> is_dict (trend_data w))
     \<and> (2 \<le> step w \<longrightarrow> is_dict (analysis_data w))
     \<and> (3 \<le> step w \<longrightarrow> is_dict (generation_data w))
     \<and> (4 \<le> step w \<longrightarrow> is_dict (quality_data w) \<and> is_dict (final_output w))"

text \<open>Further example operations: a process whose analysis fails, and the last two stages.\<close>

definition example_failed_process :: operation where
  "example_failed_process =
     Start_process
       (ok_reply (JDict [(''trends'', JList [JStr ''diy'']), (''hashtags'', JList [])]))
       (Raises ''Connection refused'')"

definition example_generate :: operation where
  "example_generate =
     Generate_content (JStr ''retro'')
       (ok_reply (JDict [(''success'', JBool True), (''filename'', JStr ''poster_123.png''),
                         (''image_path'', JStr ''/out/poster_123.png'')]))"

definition example_assess :: operation where
  "example_assess =
     Assess_quality
       (ok_reply (JDict [(''quality_assessment'',
                          JDict [(''overall_score'', JDict [(''overall_score'', JFloat (18 / 25))])])]))
       (ok_reply (JDict [(''finalized_content'', JDict [(''hashtags'', JList [JStr ''#desk''])])]))"

text \<open>What the claim says of a finalize request, and of a list of requests.\<close>

definition carries_fixed_choices :: "http_request \<Rightarrow> bool" where
  "carries_fixed_choices q \<longleftrightarrow>
     py_subscript (request_body q) ''style'' = Inr (JStr ''modern'')
     \<and> py_subscript (request_body q) ''platform'' = Inr (JStr ''instagram'')
     \<and> py_subscript (request_body q) ''max_hashtags'' = Inr (JInt 15)"

definition finalize_requests_fixed :: "http_request list \<Rightarrow> bool" where
  "finalize_requests_fixed qs \<longleftrightarrow>
     (\<forall>q \<in> set qs. request_url q = finalize_url \<longrightarrow> carries_fixed_choices q)"

text \<open>
  A run between two stages (after the upload) in whose state dictionary a caller has set
  a cancellation flag, and what \<^verbatim>\<open>start_process\<close> does for the result of the trend
  call whatever the state: the invariant of the proof.
\<close>

definition cancelled_state :: workflow_state where
  "cancelled_state =
     (snd (perform example_upload initial_state))\<lparr>other_keys := [(''cancelled'', JBool True)]\<rparr>"

definition trend_committed :: "workflow_state \<Rightarrow> json \<Rightarrow> (pyexc + bool) \<times> workflow_state \<Rightarrow> bool" where
  "trend_committed w trend_result r \<longleftrightarrow>
     (\<exists>rest. requests (snd r) = requests w @ get_youtube_trends_request # rest)
     \<and> (returns_success trend_result \<longrightarrow> trend_data (snd r) = trend_result)"

section \<open>The run state as a store of objects\<close>

text \<open>
  The state dictionary and the lists in it are mutable Python objects, and a caller that
  holds one of them can change it. To say what the read operations hand out, the state
  is modelled a second time with an explicit store: a value is \<^verbatim>\<open>None\<close>, an
  integer, a string or a reference to an object of the store, and an object is a list or
  a dictionary. \<^verbatim>\<open>reset_workflow_state\<close> allocates the two empty lists and the
  dictionary that refers to them; \<^verbatim>\<open>get_status_logs\<close> and
  \<^verbatim>\<open>get_workflow_data\<close> are \<^verbatim>\<open>workflow_state.get(key, [])\<close> and
  \<^verbatim>\<open>workflow_state.get(key)\<close>: they return the stored value as it is, which for a
  list is the reference to the stored list. The result is \<^verbatim>\<open>None\<close> of the option
  type where Python raises (no state dictionary in the session).
\<close>

datatype pyval = PNone | PInt int | PStr string | PRef nat

datatype pyobj = PList "pyval list" | PDict "(string \<times> pyval) list"

record session =
  heap :: "nat \<rightharpoonup> pyobj"
  next_ref :: nat
  workflow_ref :: "nat option"

definition alloc :: "pyobj \<Rightarrow> session \<Rightarrow> nat \<times> session" where
  "alloc obj s =
     (next_ref s, s\<lparr>heap := (heap s)(next_ref s \<mapsto> obj), next_ref := Suc (next_ref s)\<rparr>)"

definition reset_workflow_state_heap :: "session \<Rightarrow> session" where
  "reset_workflow_state_heap s =
     (let (files, s1) = alloc (PList []) s;
          (logs, s2) = alloc (PList []) s1;
          (d, s3) = alloc (PDict [(''step'', PInt 0), (''trend_data'', PNone),
                     (''analysis_data'', PNone), (''generation_data'', PNone),
                     (''quality_data'', PNone), (''uploaded_files'', PRef files),
                     (''status_logs'', PRef logs), (''final_output'', PNone)]) s2
      in s3\<lparr>workflow_ref := Some d\<rparr>)"

definition workflow_dict :: "session \<Rightarrow> (string \<times> pyval) list option" where
  "workflow_dict s =
     (case workflow_ref s of None \<Rightarrow> None
      | Some d \<Rightarrow> (case heap s d of Some (PDict kvs) \<Rightarrow> Some kvs | _ \<Rightarrow> None))"

text \<open>
  The default \<^verbatim>\<open>[]\<close> of \<^verbatim>\<open>get_status_logs\<close> is a new list; it is allocated
  here only when it is returned (when it is not, nothing refers to it).
\<close>

definition get_status_logs_heap :: "session \<Rightarrow> (pyval \<times> session) option" where
  "get_status_logs_heap s =
     (case workflow_dict s of None \<Rightarrow> None
      | Some kvs \<Rightarrow> (case map_of kvs ''status_logs'' of Some v \<Rightarrow> Some (v, s)
           | None \<Rightarrow> (let (a, s') = alloc (PList []) s in Some (PRef a, s'))))"

definition get_workflow_data_heap :: "string \<Rightarrow> session \<Rightarrow> pyval option" where
  "get_workflow_data_heap key s =
     (case workflow_dict s of None \<Rightarrow> None
      | Some kvs \<Rightarrow> Some (case map_of kvs key of None \<Rightarrow> PNone | Some v \<Rightarrow> v))"

text \<open>
  What a caller can do with a returned value: \<^verbatim>\<open>obj.append(x)\<close>, which changes the
  list the value refers to, and reading the elements of a list.
\<close>

definition list_append :: "pyval \<Rightarrow> pyval \<Rightarrow> session \<Rightarrow> session option" where
  "list_append obj x s =
     (case obj of PRef a \<Rightarrow> (case heap s a of
           Some (PList xs) \<Rightarrow> Some (s\<lparr>heap := (heap s)(a \<mapsto> PList (xs @ [x]))\<rparr>) | _ \<Rightarrow> None)
      | _ \<Rightarrow> None)"

definition the_list :: "session \<Rightarrow> pyval \<Rightarrow> pyval list option" where
  "the_list s v =
     (case v of PRef a \<Rightarrow> (case heap s a of Some (PList xs) \<Rightarrow> Some xs | _ \<Rightarrow> None)
      | _ \<Rightarrow> None)"

text \<open>
  The log a reader sees, \<^verbatim>\<open>list(get_status_logs())\<close>, and a caller that appends to
  what the read returned, \<^verbatim>\<open>get_status_logs().append(x)\<close>.
\<close>

definition observed_logs :: "session \<Rightarrow> pyval list option" where
  "observed_logs s =
     (case get_status_logs_heap s of None \<Rightarrow> None | Some (v, s') \<Rightarrow> the_list s' v)"

definition caller_appends :: "pyval \<Rightarrow> session \<Rightarrow> session option" where
  "caller_appends x s =
     (case get_status_logs_heap s of None \<Rightarrow> None | Some (v, s') \<Rightarrow> list_append v x s')"

definition fresh_session :: session where
  "fresh_session =
     reset_workflow_state_heap \<lparr>heap = Map.empty, next_ref = 0, workflow_ref = None\<rparr>"

section \<open>Basic facts about the state\<close>

lemma add_status_log_fields [simp]:
  "step (add_status_log m s w) = step w"
  "trend_data (add_status_log m s w) = trend_data w"
  "analysis_data (add_status_log m s w) = analysis_data w"
  "generation_data (add_status_log m s w) = generation_data w"
  "quality_data (add_status_log m s w) = quality_data w"
  "uploaded_files (add_status_log m s w) = uploaded_files w"
  "final_output (add_status_log m s w) = final_output w"
  "stored_keywords (add_status_log m s w) = stored_keywords w"
  "stored_description (add_status_log m s w) = stored_description w"
  "other_keys (add_status_log m s w) = other_keys w"
  "requests (add_status_log m s w) = requests w"
  "clock (add_status_log m s w) = clock w"
  "ticks (add_status_log m s w) = Suc (ticks w)"
  "status_logs (add_status_log m s w) =
     status_logs w @ [\<lparr>time = clock w (ticks w), message = m, status = s\<rparr>]"
  by (simp_all add: add_status_log_def)

lemma request_fields [simp]:
  "step (request r w) = step w"
  "trend_data (request r w) = trend_data w"
  "analysis_data (request r w) = analysis_data w"
  "generation_data (request r w) = generation_data w"
  "quality_data (request r w) = quality_data w"
  "uploaded_files (request r w) = uploaded_files w"
  "final_output (request r w) = final_output w"
  "stored_keywords (request r w) = stored_keywords w"
  "stored_description (request r w) = stored_description w"
  "other_keys (request r w) = other_keys w"
  "status_logs (request r w) = status_logs w"
  "clock (request r w) = clock w"
  "ticks (request r w) = ticks w"
  "requests (request r w) = requests w @ [r]"
  by (simp_all add: request_def)

text \<open>
  The proof rule of a statement that may raise: a property of the outcome holds if it
  holds when the statement raises and when it goes on.
\<close>

lemma raising_cases:
  assumes "\<And>e. x = Inl e \<Longrightarrow> P (Inl e, w)" and "\<And>v. x = Inr v \<Longrightarrow> P (k v)"
  shows "P (raising x w k)"
  using assms by (cases x) (simp_all add: raising_def)

lemma except_log_cases:
  assumes "\<And>e w'. r = (Inl e, w') \<Longrightarrow> P (False, add_status_log (msg e) Error w')"
    and "\<And>b w'. r = (Inr b, w') \<Longrightarrow> P (b, w')"
  shows "P (except_log msg r)"
  using assms by (cases r, cases "fst r") (auto simp: except_log_def)

lemma if_cases: "(c \<Longrightarrow> P a) \<Longrightarrow> (\<not> c \<Longrightarrow> P b) \<Longrightarrow> P (if c then a else b)"
  by simp

lemma truthy_get_subscript:
  "py_get r k JNull = Inr v \<Longrightarrow> truthy v \<Longrightarrow> py_subscript r k = Inr v"
  by (cases r) (auto simp: dict_get_def split: option.splits)

lemma is_dictE: "is_dict j \<Longrightarrow> (\<And>kvs. j = JDict kvs \<Longrightarrow> thesis) \<Longrightarrow> thesis"
  by (cases j) simp_all

text \<open>Unfolding everything evaluates an operation on given replies.\<close>

lemmas eval_defs =
  upload_materials_def upload_materials_try_def start_process_def start_process_try_def
  start_process_analysis_def generate_content_def generate_content_try_def
  assess_quality_def assess_quality_try_def assess_quality_finalize_def
  except_log_def raising_def Let_def
  upload_images_def get_youtube_trends_def analyze_drive_content_def
  generate_instagram_content_def assess_image_quality_def finalize_content_def
  ok_reply_def error_result_def dict_get_def

section \<open>The client returns failures as values\<close>

lemma failed_with_send: "failed_with msg reply \<Longrightarrow> send reply = Inl msg"
  by (cases reply) (auto split: if_splits)

lemma answered_send: "answered body reply \<Longrightarrow> send reply = Inr body"
  by (cases reply) (auto split: if_splits)

lemma failed_or_answered: "(\<exists>msg. failed_with msg reply) \<or> (\<exists>body. answered body reply)"
proof (cases reply)
  case (Raises m)
  then show ?thesis by simp
next
  case (Response status_code http_error_msg body)
  then show ?thesis by (cases body) auto
qed

lemma carries_error_error_result: "carries_error msg (error_result msg)"
  by (simp add: carries_error_def error_result_def)

text \<open>
  C5, as the claim states it: any remote error response is returned as a dictionary with
  an \<^verbatim>\<open>"error"\<close> field and \<^verbatim>\<open>success = False\<close>. It fails for an error that the
  remote service reports in the body of a response with status 200, as the trend service
  of this repository does: \<^verbatim>\<open>get_youtube_trends\<close> returns that body as it is, with
  its \<^verbatim>\<open>"error"\<close> field and without any \<^verbatim>\<open>"success"\<close> field.
\<close>

theorem remote_error_reply_has_no_success_field_counterexample:
  "get_youtube_trends (ok_reply (trend_fallback_body ''quota exceeded''))
     = trend_fallback_body ''quota exceeded''
   \<and> py_subscript (get_youtube_trends (ok_reply (trend_fallback_body ''quota exceeded''))) ''error''
       = Inr (JStr ''quota exceeded'')
   \<and> py_subscript (get_youtube_trends (ok_reply (trend_fallback_body ''quota exceeded''))) ''success''
       = Inl KeyError
   \<and> \<not> carries_error ''quota exceeded''
         (get_youtube_trends (ok_reply (trend_fallback_body ''quota exceeded'')))"
  by (simp add: get_youtube_trends_def ok_reply_def trend_fallback_body_def carries_error_def)

text \<open>
  C5, amended. Every gateway method of the client returns a value for every reply of the
  network (the \<^verbatim>\<open>except Exception\<close> of each method turns what \<open>send\<close> raises into a
  value). A failed call (the \<^verbatim>\<open>requests\<close> call raises, as for a refused connection or
  a timeout, or the response has an error status, or its body is not JSON) is returned as
  a dictionary whose \<^verbatim>\<open>"error"\<close> field is the message of the failure and whose
  \<^verbatim>\<open>"success"\<close> field is False. Every other reply is answered, and the method returns
  the decoded body unchanged, whatever it says. Each reply is of one of the two kinds.
\<close>

theorem client_returns_failures_as_error_dicts:
  "(failed_with msg reply \<longrightarrow>
      carries_error msg (upload_images files reply)
      \<and> carries_error msg (get_youtube_trends reply)
      \<and> carries_error msg (analyze_drive_content folder_id kws reply)
      \<and> carries_error msg (generate_instagram_content visual_summary kws video_summary trends style reply)
      \<and> carries_error msg (assess_image_quality image_path prompt reply)
      \<and> carries_error msg (finalize_content image_path prompt style platform max_hashtags reply))
   \<and> (answered body reply \<longrightarrow>
      upload_images files reply = body
      \<and> get_youtube_trends reply = body
      \<and> analyze_drive_content folder_id kws reply = body
      \<and> generate_instagram_content visual_summary kws video_summary trends style reply = body
      \<and> assess_image_quality image_path prompt reply = body
      \<and> finalize_content image_path prompt style platform max_hashtags reply = body)
   \<and> ((\<exists>m. failed_with m reply) \<or> (\<exists>b. answered b reply))"
  using failed_with_send [of msg reply] answered_send [of body reply] failed_or_answered [of reply]
  by (simp add: upload_images_def get_youtube_trends_def analyze_drive_content_def
      generate_instagram_content_def assess_image_quality_def finalize_content_def
      carries_error_error_result)

theorem client_returns_failures_as_error_dicts_witness:
  "failed_with ''Read timed out'' (Raises ''Read timed out'')
   \<and> get_youtube_trends (Raises ''Read timed out'')
       = JDict [(''error'', JStr ''Read timed out''), (''success'', JBool False)]
   \<and> carries_error ''Read timed out'' (finalize_content (JStr ''/p'') (JStr ''v'') (JStr ''modern'')
        (JStr ''instagram'') (JInt 15) (Raises ''Read timed out''))
   \<and> answered (trend_fallback_body ''quota exceeded'')
        (ok_reply (trend_fallback_body ''quota exceeded''))
   \<and> get_youtube_trends (ok_reply (trend_fallback_body ''quota exceeded''))
       = trend_fallback_body ''quota exceeded''"
proof -
  have h: "failed_with ''Read timed out'' (Raises ''Read timed out'')" by simp
  have a: "answered (trend_fallback_body ''quota exceeded'')
      (ok_reply (trend_fallback_body ''quota exceeded''))"
    by (simp add: ok_reply_def)
  show ?thesis
    using h a
      client_returns_failures_as_error_dicts [where msg = "''Read timed out''"
        and reply = "Raises ''Read timed out''" and image_path = "JStr ''/p''"
        and prompt = "JStr ''v''" and style = "JStr ''modern''" and platform = "JStr ''instagram''"
        and max_hashtags = "JInt 15"]
      client_returns_failures_as_error_dicts [where body = "trend_fallback_body ''quota exceeded''"
        and reply = "ok_reply (trend_fallback_body ''quota exceeded'')"]
    by (simp add: get_youtube_trends_def error_result_def)
qed

section \<open>The status log only grows\<close>

lemma strict_prefix_append [simp]: "strict_prefix xs (xs @ ys) \<longleftrightarrow> ys \<noteq> []"
  by (auto simp: strict_prefix_def)

lemma strict_prefix_grow: "prefix xs ys \<Longrightarrow> zs \<noteq> [] \<Longrightarrow> strict_prefix xs (ys @ zs)"
  by (auto simp: strict_prefix_def prefix_def)

lemmas raising_grows =
  raising_cases [where P = "\<lambda>r. strict_prefix (status_logs w0) (status_logs (snd r))"] for w0

lemma except_log_grows:
  "strict_prefix (status_logs w0) (status_logs (snd r))
   \<Longrightarrow> strict_prefix (status_logs w0) (status_logs (snd (except_log msg r)))"
  by (cases r, cases "fst r") (auto simp: except_log_def strict_prefix_def)

lemma upload_materials_log:
  "strict_prefix (status_logs w) (status_logs (snd (upload_materials files kws descr reply w)))"
  unfolding upload_materials_def upload_materials_try_def Let_def
  by (intro except_log_grows) (auto intro!: raising_grows)

lemma start_process_analysis_log:
  "prefix (status_logs w0) (status_logs w)
   \<Longrightarrow> strict_prefix (status_logs w0) (status_logs (snd (start_process_analysis r w)))"
  unfolding start_process_analysis_def Let_def
  by (auto intro!: raising_grows strict_prefix_grow)

lemma start_process_log:
  "strict_prefix (status_logs w) (status_logs (snd (start_process r1 r2 w)))"
  unfolding start_process_def start_process_try_def Let_def
  by (intro except_log_grows) (auto intro!: raising_grows start_process_analysis_log)

lemma generate_content_log:
  "strict_prefix (status_logs w) (status_logs (snd (generate_content style r w)))"
  unfolding generate_content_def generate_content_try_def Let_def
  by (intro except_log_grows) (auto intro!: raising_grows)

lemma assess_quality_finalize_log:
  "prefix (status_logs w0) (status_logs w)
   \<Longrightarrow> strict_prefix (status_logs w0)
        (status_logs (snd (assess_quality_finalize g i p q s r w)))"
  unfolding assess_quality_finalize_def Let_def
  by (auto intro!: raising_grows strict_prefix_grow)

lemma assess_quality_log:
  "strict_prefix (status_logs w) (status_logs (snd (assess_quality r1 r2 w)))"
  unfolding assess_quality_def assess_quality_try_def Let_def
  by (intro except_log_grows) (auto intro!: raising_grows assess_quality_finalize_log)

text \<open>
  C6. Every transition of the orchestrator (\<^verbatim>\<open>upload_materials\<close>, \<^verbatim>\<open>start_process\<close>,
  \<^verbatim>\<open>generate_content\<close>, \<^verbatim>\<open>assess_quality\<close>), whatever the state it starts from and
  whatever the gateways answer, returns with a status log of which the log before the
  call is a proper prefix: at least one entry is appended, and no earlier entry is
  removed, reordered or changed.
\<close>

theorem every_transition_extends_the_status_log:
  "strict_prefix (get_status_logs w) (get_status_logs (snd (perform operation w)))"
  unfolding get_status_logs_def
  by (cases operation)
     (simp_all add: upload_materials_log start_process_log generate_content_log assess_quality_log)

section \<open>Degraded and fatal stage failures\<close>

lemma returns_errorD:
  assumes "returns_error r"
  obtains err where "py_get r ''error'' JNull = Inr err" "truthy err"
    "py_subscript r ''error'' = Inr err"
proof (cases r)
  case (JDict kvs)
  with assms show ?thesis
    by (intro that [of "dict_get kvs ''error'' JNull"])
       (auto simp: returns_error_def dict_get_def split: option.splits)
qed (use assms in \<open>simp_all add: returns_error_def\<close>)

lemma returns_successD:
  assumes "returns_success r"
  obtains err where "py_get r ''error'' JNull = Inr err" "\<not> truthy err"
  using assms by (cases r) (simp_all add: returns_success_def)

lemma failed_returns_error:
  "failed_with msg reply \<Longrightarrow> msg \<noteq> [] \<Longrightarrow> returns_error (except_Exception (send reply))"
  by (simp add: failed_with_send error_result_def returns_error_def dict_get_def)

text \<open>
  The orchestrator tells a failed gateway call by the truth value of the \<^verbatim>\<open>"error"\<close>
  entry of the result (lines 86, 101, 143, 173 and 194), not by the \<^verbatim>\<open>"success"\<close>
  flag that the client sets and that \<^verbatim>\<open>upload_materials\<close> tests (line 58). Where the
  entry is true, the stages do what is expected of them. For the trend stage: with a
  true error entry in the trend result and an answer of the analysis service whose
  keywords have a length, \<^verbatim>\<open>start_process\<close> returns True, the step is 2, the stored
  trend data is \<^verbatim>\<open>{"trends": [], "hashtags": []}\<close> and a warning is logged.
\<close>

lemma trend_error_entry_degrades_to_empty_trend_data:
  assumes trend: "returns_error (get_youtube_trends trend_reply)"
    and analysis: "analysis_response (analyze_drive_content None
          (case stored_keywords w of None \<Rightarrow> JList [] | Some k \<Rightarrow> k) analysis_reply)"
  shows "fst (start_process trend_reply analysis_reply w)
       \<and> step (snd (start_process trend_reply analysis_reply w)) = 2
       \<and> trend_data (snd (start_process trend_reply analysis_reply w))
           = JDict [(''trends'', JList []), (''hashtags'', JList [])]
       \<and> (\<exists>e \<in> set (new_entries w (snd (start_process trend_reply analysis_reply w))).
             status e = Warning \<and> (\<exists>err. message e = Msg_trend_error err))"
proof -
  let ?a = "analyze_drive_content None
          (case stored_keywords w of None \<Rightarrow> JList [] | Some k \<Rightarrow> k) analysis_reply"
  from trend obtain terr where t: "py_get (get_youtube_trends trend_reply) ''error'' JNull = Inr terr"
    "truthy terr" "py_subscript (get_youtube_trends trend_reply) ''error'' = Inr terr"
    by (rule returns_errorD)
  from analysis have "returns_success ?a" by (simp add: analysis_response_def)
  then obtain aerr where a: "py_get ?a ''error'' JNull = Inr aerr" "\<not> truthy aerr"
    by (rule returns_successD)
  from analysis obtain ks n where k: "py_get ?a ''keywords'' (JList []) = Inr ks" "py_len ks = Inr n"
    by (auto simp: analysis_response_def sized_def split: sum.splits)
  show ?thesis
    unfolding start_process_def start_process_try_def start_process_analysis_def except_log_def
    by (simp add: Let_def raising_def t a k empty_trend_data_def new_entries_def)
qed


lemma generate_content_try_fails:
  assumes "\<And>visual_summary kws video_summary trends.
      returns_error (generate_instagram_content visual_summary kws video_summary trends style reply)"
  shows "generate_fails w (generate_content_try style reply w)"
proof -
  have "returns_error (except_Exception (send reply))"
    using assms by (simp add: generate_instagram_content_def)
  then obtain err where err: "py_get (except_Exception (send reply)) ''error'' JNull = Inr err"
    "truthy err" by (rule returns_errorD)
  show ?thesis
    unfolding generate_content_try_def Let_def generate_instagram_content_def
    by (intro raising_cases [where P = "generate_fails w"] if_cases [where P = "generate_fails w"])
       (auto simp: err generate_fails_def quality_request_def
          generate_instagram_content_request_def services_def)
qed

text \<open>
  For the generation stage: with a true error entry in the result of the generation
  gateway (whatever the request it was given), \<^verbatim>\<open>generate_content\<close> returns False, the
  step is what it was, none of the requests the call has made goes to the quality
  service, and the last entry of the status log has severity error.
\<close>

lemma generation_error_entry_is_fatal:
  assumes "\<And>visual_summary kws video_summary trends.
      returns_error (generate_instagram_content visual_summary kws video_summary trends style reply)"
  shows "\<not> fst (generate_content style reply w)
       \<and> step (snd (generate_content style reply w)) = step w
       \<and> (\<forall>q \<in> set (new_requests w (snd (generate_content style reply w))). \<not> quality_request q)
       \<and> status (last (status_logs (snd (generate_content style reply w)))) = Error"
  using generate_content_try_fails [OF assms, of w]
  unfolding generate_content_def generate_fails_def new_requests_def
  by (cases "generate_content_try style reply w"; cases "fst (generate_content_try style reply w)")
     (auto simp: except_log_def)


lemma assess_quality_finalize_post:
  "finalize_post w score (except_Exception (send reply))
     (assess_quality_finalize g image_path prompt quality_result score reply w)"
  unfolding assess_quality_finalize_def Let_def finalize_content_def
  by (intro raising_cases [where P = "finalize_post w score (except_Exception (send reply))"]
        if_cases [where P = "finalize_post w score (except_Exception (send reply))"])
     (auto simp: finalize_post_def finalize_url_def finalize_content_request_def
        returns_success_def returns_error_def truthy_get_subscript)

text \<open>
  For the quality stage, in a state whose generation and analysis data are dictionaries
  (so that the quality gateway is called at all): with a true error entry in the result
  of the quality gateway, \<^verbatim>\<open>assess_quality\<close> logs an entry of severity warning for it
  and still sends the finalize request; if the finalize result has no true error entry,
  the step is 4 and the final output holds the default score 0.7, and if it has one,
  \<^verbatim>\<open>assess_quality\<close> returns False and the step is what it was.
\<close>

lemma quality_error_entry_degrades_to_default_score:
  assumes gen: "is_dict (generation_data w)" and ana: "is_dict (analysis_data w)"
    and quality: "\<And>image_path prompt.
        returns_error (assess_image_quality image_path prompt quality_reply)"
  shows "(\<exists>e \<in> set (new_entries w (snd (assess_quality quality_reply finalize_reply w))).
            status e = Warning \<and> (\<exists>err. message e = Msg_quality_error err))
       \<and> (\<exists>q \<in> set (new_requests w (snd (assess_quality quality_reply finalize_reply w))).
            request_url q = finalize_url)
       \<and> ((\<forall>image_path prompt. returns_success (finalize_content image_path prompt
               (JStr ''modern'') (JStr ''instagram'') (JInt 15) finalize_reply))
          \<longrightarrow> step (snd (assess_quality quality_reply finalize_reply w)) = 4
            \<and> py_subscript (final_output (snd (assess_quality quality_reply finalize_reply w)))
                 ''quality_score'' = Inr (JFloat (7 / 10)))
       \<and> ((\<forall>image_path prompt. returns_error (finalize_content image_path prompt
               (JStr ''modern'') (JStr ''instagram'') (JInt 15) finalize_reply))
          \<longrightarrow> \<not> fst (assess_quality quality_reply finalize_reply w)
            \<and> step (snd (assess_quality quality_reply finalize_reply w)) = step w)"
proof -
  from gen obtain g where g: "generation_data w = JDict g" by (rule is_dictE)
  from ana obtain a where a: "analysis_data w = JDict a" by (rule is_dictE)
  have "returns_error (except_Exception (send quality_reply))"
    using quality by (simp add: assess_image_quality_def)
  then obtain err where err: "py_get (except_Exception (send quality_reply)) ''error'' JNull = Inr err"
    "truthy err" "py_subscript (except_Exception (send quality_reply)) ''error'' = Inr err"
    by (rule returns_errorD)
  let ?ip = "dict_get g ''image_path'' (JStr [])"
  let ?pr = "dict_get a ''visual_summary'' (JStr ''AI generated content'')"
  let ?W = "add_status_log (Msg_quality_error err) Warning
              (request (assess_image_quality_request ?ip ?pr)
                 (add_status_log Msg_quality_starting Info w))"
  let ?r = "assess_quality_finalize (JDict g) ?ip ?pr (except_Exception (send quality_reply))
              default_quality_score finalize_reply ?W"
  have body: "assess_quality_try quality_reply finalize_reply w = ?r"
    unfolding assess_quality_try_def
    by (simp add: Let_def raising_def g a err assess_image_quality_def)
  have post: "finalize_post ?W default_quality_score (except_Exception (send finalize_reply)) ?r"
    by (rule assess_quality_finalize_post)
  obtain res w' where r: "?r = (res, w')" by (cases ?r)
  let ?fin = "except_Exception (send finalize_reply)"
  have post': "finalize_post ?W default_quality_score ?fin (res, w')"
    using post unfolding r .
  have aq: "assess_quality quality_reply finalize_reply w
      = except_log Msg_quality_exception (res, w')"
    unfolding assess_quality_def body r ..
  from post' obtain es rest q where
    logs: "status_logs w' = status_logs ?W @ es" and
    reqs: "requests w' = requests ?W @ q # rest" "request_url q = finalize_url"
    by (auto simp: finalize_post_def prefix_def)
  from post' have
    ok: "returns_success ?fin \<Longrightarrow>
           step w' = 4 \<and> py_subscript (final_output w') ''quality_score'' = Inr default_quality_score"
    and bad: "returns_error ?fin \<Longrightarrow> res = Inr False \<and> step w' = step w"
    by (simp_all add: finalize_post_def)
  have fin: "finalize_content ip pr s p m finalize_reply = ?fin"
    for ip pr s p m by (simp add: finalize_content_def)
  show ?thesis
    unfolding aq
    using logs reqs ok bad
    by (cases res)
       (auto simp: except_log_def new_entries_def new_requests_def fin default_quality_score_def)
qed


section \<open>The step along a sequence of operations\<close>

lemma except_log_step [simp]: "step (snd (except_log msg r)) = step (snd r)"
  by (cases r, cases "fst r") (auto simp: except_log_def)

lemma upload_materials_step:
  "keeps_or_sets w 1 (upload_materials_try files kws descr reply w)"
  unfolding upload_materials_try_def Let_def
  by (intro raising_cases [where P = "keeps_or_sets w 1"] if_cases [where P = "keeps_or_sets w 1"])
     (simp_all add: keeps_or_sets_def)

lemma start_process_analysis_step:
  "step w = step w0 \<Longrightarrow> keeps_or_sets w0 2 (start_process_analysis reply w)"
  unfolding start_process_analysis_def Let_def
  by (intro raising_cases [where P = "keeps_or_sets w0 2"] if_cases [where P = "keeps_or_sets w0 2"])
     (simp_all add: keeps_or_sets_def)

lemma start_process_step:
  "keeps_or_sets w 2 (start_process_try trend_reply analysis_reply w)"
  unfolding start_process_try_def Let_def
  by (intro raising_cases [where P = "keeps_or_sets w 2"] if_cases [where P = "keeps_or_sets w 2"]
        start_process_analysis_step)
     (simp_all add: keeps_or_sets_def)

lemma generate_content_step:
  "keeps_or_sets w 3 (generate_content_try style reply w)"
  unfolding generate_content_try_def Let_def
  by (intro raising_cases [where P = "keeps_or_sets w 3"] if_cases [where P = "keeps_or_sets w 3"])
     (simp_all add: keeps_or_sets_def)

lemma assess_quality_finalize_step:
  "step w = step w0 \<Longrightarrow> keeps_or_sets w0 4 (assess_quality_finalize g i p q s reply w)"
  unfolding assess_quality_finalize_def Let_def
  by (intro raising_cases [where P = "keeps_or_sets w0 4"] if_cases [where P = "keeps_or_sets w0 4"])
     (simp_all add: keeps_or_sets_def)

lemma assess_quality_step:
  "keeps_or_sets w 4 (assess_quality_try quality_reply finalize_reply w)"
  unfolding assess_quality_try_def Let_def
  by (intro raising_cases [where P = "keeps_or_sets w 4"] if_cases [where P = "keeps_or_sets w 4"]
        assess_quality_finalize_step)
     (simp_all add: keeps_or_sets_def)

text \<open>An operation leaves the step as it is or writes its own step.\<close>

lemma perform_step:
  "step (snd (perform operation w)) = step w \<or> step (snd (perform operation w)) = target operation"
proof (cases operation)
  case (Upload_materials files kws descr reply)
  then show ?thesis
    using upload_materials_step [of w files kws descr reply]
    by (simp add: upload_materials_def keeps_or_sets_def)
next
  case (Start_process trend_reply analysis_reply)
  then show ?thesis
    using start_process_step [of w trend_reply analysis_reply]
    by (simp add: start_process_def keeps_or_sets_def)
next
  case (Generate_content style reply)
  then show ?thesis
    using generate_content_step [of w style reply]
    by (simp add: generate_content_def keeps_or_sets_def)
next
  case (Assess_quality quality_reply finalize_reply)
  then show ?thesis
    using assess_quality_step [of w quality_reply finalize_reply]
    by (simp add: assess_quality_def keeps_or_sets_def)
qed

lemma steps_hd: "hd (steps ops w) = step w"
  by (cases ops) simp_all

text \<open>
  C3, as the claim states it: along every sequence of operations the step never
  decreases. It fails: a second upload after a completed process writes step 1 over
  step 2 (the steps observed are 0, 1, 2, 1).
\<close>

theorem step_moves_backward_counterexample:
  "\<not> sorted (steps [example_upload, example_process, example_upload] initial_state)"
  by (simp add: example_upload_def example_process_def eval_defs initial_state_def)

lemma sorted_steps_in_pipeline_order:
  "in_pipeline_order ops w \<Longrightarrow> sorted (steps ops w)"
proof (induction ops arbitrary: w)
  case Nil
  then show ?case by simp
next
  case (Cons operation rest)
  let ?w = "snd (perform operation w)"
  from Cons.prems have le: "step w \<le> target operation" and rest: "in_pipeline_order rest ?w"
    by simp_all
  from perform_step [of operation w] le have "step w \<le> step ?w"
    by auto
  moreover have "sorted (steps rest ?w)"
    using rest by (rule Cons.IH)
  moreover have "hd (steps rest ?w) = step ?w"
    by (rule steps_hd)
  ultimately show ?case
    by (cases "steps rest ?w") auto
qed

text \<open>
  C3, amended. Every operation, whatever it returns, either leaves the step as it was or
  writes its own step (1 for \<^verbatim>\<open>upload_materials\<close>, 2 for \<^verbatim>\<open>start_process\<close>, 3 for
  \<^verbatim>\<open>generate_content\<close>, 4 for \<^verbatim>\<open>assess_quality\<close>): no other value, and so no
  Failed stage, is ever written. Hence along every sequence of operations in which no
  operation is called when the run is already past that operation's step, the step
  never decreases.
\<close>

theorem step_never_decreases_in_pipeline_order:
  "(step (snd (perform operation w)) = step w
      \<or> step (snd (perform operation w)) = target operation)
   \<and> (in_pipeline_order ops w \<longrightarrow> sorted (steps ops w))"
  using perform_step [of operation w] sorted_steps_in_pipeline_order [of ops w] by blast

theorem step_never_decreases_in_pipeline_order_witness:
  "in_pipeline_order [example_upload, example_process] initial_state
   \<and> sorted (steps [example_upload, example_process] initial_state)
   \<and> step (snd (perform example_upload initial_state)) = target example_upload"
proof -
  have h: "in_pipeline_order [example_upload, example_process] initial_state"
    by (simp add: example_upload_def example_process_def eval_defs initial_state_def)
  have t: "step (snd (perform example_upload initial_state)) \<noteq> step initial_state"
    by (simp add: example_upload_def eval_defs initial_state_def)
  show ?thesis
    using h t step_never_decreases_in_pipeline_order
      [of example_upload initial_state "[example_upload, example_process]"]
    by simp
qed

section \<open>Assets and the step\<close>

lemma py_get_is_dict: "py_get j k d = Inr v \<Longrightarrow> is_dict j"
  by (cases j) simp_all

lemma except_log_assets:
  "assets_reached (snd r) \<Longrightarrow> assets_reached (snd (except_log msg r))"
  by (cases r, cases "fst r") (auto simp: except_log_def assets_reached_def)

lemmas raising_assets = raising_cases [where P = "\<lambda>r. assets_reached (snd r)"]
  and if_assets = if_cases [where P = "\<lambda>r. assets_reached (snd r)"]

lemma upload_materials_assets:
  "assets_reached w \<Longrightarrow> assets_reached (snd (upload_materials files kws descr reply w))"
  unfolding upload_materials_def upload_materials_try_def Let_def
  by (intro except_log_assets raising_assets if_assets) (auto simp: assets_reached_def)

lemma start_process_analysis_assets:
  "assets_reached w \<Longrightarrow> is_dict (trend_data w)
   \<Longrightarrow> assets_reached (snd (start_process_analysis reply w))"
  unfolding start_process_analysis_def Let_def
  by (intro raising_assets if_assets) (auto simp: assets_reached_def dest: py_get_is_dict)

lemma start_process_assets:
  "assets_reached w \<Longrightarrow> assets_reached (snd (start_process trend_reply analysis_reply w))"
  unfolding start_process_def start_process_try_def Let_def
  by (intro except_log_assets raising_assets if_assets start_process_analysis_assets)
     (auto simp: assets_reached_def empty_trend_data_def dest: py_get_is_dict)

lemma generate_content_assets:
  "assets_reached w \<Longrightarrow> assets_reached (snd (generate_content style reply w))"
  unfolding generate_content_def generate_content_try_def Let_def
  by (intro except_log_assets raising_assets if_assets)
     (auto simp: assets_reached_def dest: py_get_is_dict)

lemma assess_quality_finalize_assets:
  "assets_reached w \<Longrightarrow> is_dict (analysis_data w) \<Longrightarrow> is_dict g \<Longrightarrow> generation_data w = g
   \<Longrightarrow> is_dict q
   \<Longrightarrow> assets_reached (snd (assess_quality_finalize g i p q s reply w))"
  unfolding assess_quality_finalize_def Let_def
  by (intro raising_assets if_assets) (auto simp: assets_reached_def dest: py_get_is_dict)

lemma assess_quality_assets:
  "assets_reached w \<Longrightarrow> assets_reached (snd (assess_quality quality_reply finalize_reply w))"
  unfolding assess_quality_def assess_quality_try_def Let_def
  by (intro except_log_assets raising_assets if_assets assess_quality_finalize_assets)
     (auto simp: assets_reached_def dest: py_get_is_dict)

lemma perform_assets: "assets_reached w \<Longrightarrow> assets_reached (snd (perform operation w))"
  by (cases operation)
     (simp_all add: upload_materials_assets start_process_assets generate_content_assets
        assess_quality_assets)

lemma run_assets: "assets_reached w \<Longrightarrow> assets_reached (run ops w)"
  by (induction ops arbitrary: w) (simp_all add: perform_assets)

lemma reset_assets: "assets_reached (reset_workflow_state w)"
  by (simp add: assets_reached_def reset_workflow_state_def)

text \<open>
  C4, as the claim states it: after every operation an asset is populated if and only if
  the step has reached its stage. It fails: after an upload and a process whose trend
  call succeeds and whose analysis call fails, the trend data is populated and the step
  is still 1.
\<close>

theorem asset_before_its_stage_counterexample:
  "\<not> (populated (trend_data (run [example_upload, example_failed_process] initial_state))
       \<longleftrightarrow> 2 \<le> step (run [example_upload, example_failed_process] initial_state))"
  by (simp add: example_upload_def example_failed_process_def eval_defs initial_state_def
      populated_def)

text \<open>
  C4, amended. After every sequence of operations on a run that started from the reset
  state: if the step is at least 2, the trend data and the analysis data are
  dictionaries; if it is at least 3, the generation data is one; if it is 4, the quality
  data and the final output are. Nothing is said of the converse, nor of the uploaded
  files.
\<close>

theorem reached_stages_have_their_assets:
  "(2 \<le> step (run ops (reset_workflow_state w))
      \<longrightarrow> is_dict (trend_data (run ops (reset_workflow_state w)))
        \<and> is_dict (analysis_data (run ops (reset_workflow_state w))))
   \<and> (3 \<le> step (run ops (reset_workflow_state w))
      \<longrightarrow> is_dict (generation_data (run ops (reset_workflow_state w))))
   \<and> (4 \<le> step (run ops (reset_workflow_state w))
      \<longrightarrow> is_dict (quality_data (run ops (reset_workflow_state w)))
        \<and> is_dict (final_output (run ops (reset_workflow_state w))))"
  using run_assets [OF reset_assets, of ops w] by (auto simp: assets_reached_def)

theorem reached_stages_have_their_assets_witness:
  "4 \<le> step (run [example_upload, example_process, example_generate, example_assess]
            (reset_workflow_state initial_state))
   \<and> is_dict (trend_data (run [example_upload, example_process, example_generate, example_assess]
            (reset_workflow_state initial_state)))
   \<and> is_dict (analysis_data (run [example_upload, example_process, example_generate, example_assess]
            (reset_workflow_state initial_state)))
   \<and> is_dict (generation_data (run [example_upload, example_process, example_generate, example_assess]
            (reset_workflow_state initial_state)))
   \<and> is_dict (quality_data (run [example_upload, example_process, example_generate, example_assess]
            (reset_workflow_state initial_state)))
   \<and> is_dict (final_output (run [example_upload, example_process, example_generate, example_assess]
            (reset_workflow_state initial_state)))"
proof -
  have h: "step (run [example_upload, example_process, example_generate, example_assess]
            (reset_workflow_state initial_state)) = 4"
    by (simp add: example_upload_def example_process_def example_generate_def example_assess_def
        eval_defs initial_state_def reset_workflow_state_def)
  show ?thesis
    using h reached_stages_have_their_assets
      [of "[example_upload, example_process, example_generate, example_assess]" initial_state]
    by simp
qed

section \<open>The finalize request\<close>

lemma finalize_requests_fixed_simps [simp]:
  "finalize_requests_fixed []"
  "finalize_requests_fixed (qs @ qs') \<longleftrightarrow> finalize_requests_fixed qs \<and> finalize_requests_fixed qs'"
  "finalize_requests_fixed (q # qs) \<longleftrightarrow>
     (request_url q = finalize_url \<longrightarrow> carries_fixed_choices q) \<and> finalize_requests_fixed qs"
  by (auto simp: finalize_requests_fixed_def)

lemma except_log_requests [simp]: "requests (snd (except_log msg r)) = requests (snd r)"
  by (cases r, cases "fst r") (auto simp: except_log_def)

lemma assess_quality_finalize_fixed:
  assumes "finalize_requests_fixed (drop n (requests w))" "n \<le> length (requests w)"
  shows "finalize_requests_fixed
     (drop n (requests (snd (assess_quality_finalize g i p q s reply w))))"
  unfolding assess_quality_finalize_def Let_def
  by (intro raising_cases [where P = "\<lambda>r. finalize_requests_fixed (drop n (requests (snd r)))"]
        if_cases [where P = "\<lambda>r. finalize_requests_fixed (drop n (requests (snd r)))"])
     (use assms in \<open>auto simp: finalize_content_request_def carries_fixed_choices_def\<close>)

lemma assess_quality_fixed:
  "finalize_requests_fixed (new_requests w (snd (assess_quality quality_reply finalize_reply w)))"
  unfolding assess_quality_def assess_quality_try_def Let_def new_requests_def except_log_requests
  by (intro raising_cases [where P = "\<lambda>r. finalize_requests_fixed (drop (length (requests w)) (requests (snd r)))"]
        if_cases [where P = "\<lambda>r. finalize_requests_fixed (drop (length (requests w)) (requests (snd r)))"]
        assess_quality_finalize_fixed)
     (auto simp: assess_image_quality_request_def finalize_url_def services_def)

text \<open>
  C10. Every request that \<^verbatim>\<open>assess_quality\<close> sends to the finalize endpoint carries
  \<^verbatim>\<open>style = "modern"\<close>, \<^verbatim>\<open>platform = "instagram"\<close> and \<^verbatim>\<open>max_hashtags = 15\<close>,
  whatever style \<^verbatim>\<open>generate_content\<close> was called with before on the same run.
\<close>

theorem finalize_request_style_is_fixed:
  assumes "q \<in> set (new_requests (snd (generate_content style generation_reply w))
             (snd (assess_quality quality_reply finalize_reply
                (snd (generate_content style generation_reply w)))))"
    and "request_url q = finalize_url"
  shows "py_subscript (request_body q) ''style'' = Inr (JStr ''modern'')
       \<and> py_subscript (request_body q) ''platform'' = Inr (JStr ''instagram'')
       \<and> py_subscript (request_body q) ''max_hashtags'' = Inr (JInt 15)"
  using assess_quality_fixed [of "snd (generate_content style generation_reply w)"
      quality_reply finalize_reply] assms
  by (auto simp: finalize_requests_fixed_def carries_fixed_choices_def)

theorem finalize_request_style_is_fixed_witness:
  "finalize_content_request (JStr ''/out/poster_123.png'') (JStr ''a desk'')
       (JStr ''modern'') (JStr ''instagram'') (JInt 15)
     \<in> set (new_requests
         (snd (generate_content (JStr ''retro'')
            (ok_reply (JDict [(''image_path'', JStr ''/out/poster_123.png'')])) processed_state))
         (snd (assess_quality (Raises ''Connection refused'') (Raises ''Read timed out'')
            (snd (generate_content (JStr ''retro'')
               (ok_reply (JDict [(''image_path'', JStr ''/out/poster_123.png'')]))
               processed_state)))))
   \<and> request_url (finalize_content_request (JStr ''/out/poster_123.png'') (JStr ''a desk'')
         (JStr ''modern'') (JStr ''instagram'') (JInt 15)) = finalize_url
   \<and> py_subscript (request_body (finalize_content_request (JStr ''/out/poster_123.png'')
         (JStr ''a desk'') (JStr ''modern'') (JStr ''instagram'') (JInt 15))) ''style''
       = Inr (JStr ''modern'')"
proof -
  let ?q = "finalize_content_request (JStr ''/out/poster_123.png'') (JStr ''a desk'')
       (JStr ''modern'') (JStr ''instagram'') (JInt 15)"
  let ?w = "snd (generate_content (JStr ''retro'')
            (ok_reply (JDict [(''image_path'', JStr ''/out/poster_123.png'')])) processed_state)"
  have h1: "?q \<in> set (new_requests ?w
      (snd (assess_quality (Raises ''Connection refused'') (Raises ''Read timed out'') ?w)))"
    by (simp add: eval_defs processed_state_def initial_state_def new_requests_def)
  have h2: "request_url ?q = finalize_url"
    by (simp add: finalize_content_request_def finalize_url_def)
  show ?thesis
    using h1 h2 finalize_request_style_is_fixed [OF h1 h2] by simp
qed

section \<open>Cancellation\<close>

lemma except_log_trend_data [simp]: "trend_data (snd (except_log msg r)) = trend_data (snd r)"
  by (cases r, cases "fst r") (auto simp: except_log_def)

lemma start_process_analysis_committed:
  assumes "requests w = requests w0 @ get_youtube_trends_request # rest"
    and "returns_success tr \<longrightarrow> trend_data w = tr"
  shows "trend_committed w0 tr (start_process_analysis reply w)"
  unfolding start_process_analysis_def Let_def
  by (intro raising_cases [where P = "trend_committed w0 tr"] if_cases [where P = "trend_committed w0 tr"])
     (use assms in \<open>auto simp: trend_committed_def\<close>)

lemma start_process_try_committed:
  "trend_committed w (get_youtube_trends trend_reply) (start_process_try trend_reply analysis_reply w)"
  unfolding start_process_try_def Let_def
  by (intro raising_cases [where P = "trend_committed w (get_youtube_trends trend_reply)"]
        if_cases [where P = "trend_committed w (get_youtube_trends trend_reply)"]
        start_process_analysis_committed [where rest = "[]"])
     (auto simp: trend_committed_def returns_success_def)

text \<open>
  C9, amended. The orchestrator has no cancellation check: in every state
  \<^verbatim>\<open>start_process\<close> sends the trend request first, and a trend result that is a
  success is stored as the trend data of the run (it is not discarded).
\<close>

theorem start_process_has_no_cancellation_check:
  "(\<exists>rest. requests (snd (start_process trend_reply analysis_reply w))
        = requests w @ get_youtube_trends_request # rest)
   \<and> (returns_success (get_youtube_trends trend_reply)
      \<longrightarrow> trend_data (snd (start_process trend_reply analysis_reply w))
          = get_youtube_trends trend_reply)"
  using start_process_try_committed [of w trend_reply analysis_reply]
  by (simp add: start_process_def trend_committed_def)

text \<open>
  C9, as the claim states it: with a cancellation flag set between two stages, the next
  stage's gateway is not called. It fails: with the flag set in the state dictionary
  after the upload, \<^verbatim>\<open>start_process\<close> sends the trend and the analysis requests and
  stores the trend result.
\<close>

theorem cancelled_run_still_calls_the_gateways_counterexample:
  "get_workflow_data ''cancelled'' cancelled_state = Json (JBool True)
   \<and> new_requests cancelled_state (snd (perform example_process cancelled_state))
       = [get_youtube_trends_request,
          analyze_drive_content_request None (JList [JStr ''puzzle''])]
   \<and> trend_data (snd (perform example_process cancelled_state))
       = JDict [(''trends'', JList [JStr ''diy'']), (''hashtags'', JList [])]"
  by (simp add: cancelled_state_def example_upload_def example_process_def eval_defs
      initial_state_def new_requests_def get_workflow_data_def)

theorem start_process_has_no_cancellation_check_witness:
  "returns_success (get_youtube_trends (ok_reply (JDict [(''trends'', JList [JStr ''diy''])])))
   \<and> trend_data (snd (start_process (ok_reply (JDict [(''trends'', JList [JStr ''diy''])]))
         (Raises ''Connection refused'') cancelled_state))
       = JDict [(''trends'', JList [JStr ''diy''])]"
proof -
  have h: "returns_success (get_youtube_trends (ok_reply (JDict [(''trends'', JList [JStr ''diy''])])))"
    by (simp add: get_youtube_trends_def ok_reply_def returns_success_def dict_get_def)
  have e: "get_youtube_trends (ok_reply (JDict [(''trends'', JList [JStr ''diy''])]))
      = JDict [(''trends'', JList [JStr ''diy''])]"
    by (simp add: get_youtube_trends_def ok_reply_def)
  show ?thesis
    using h e start_process_has_no_cancellation_check
      [of "ok_reply (JDict [(''trends'', JList [JStr ''diy''])])" "Raises ''Connection refused''"
          cancelled_state]
    by simp
qed

section \<open>Reads return the stored object\<close>

lemmas heap_defs = alloc_def reset_workflow_state_heap_def workflow_dict_def
  get_status_logs_heap_def get_workflow_data_heap_def list_append_def the_list_def
  observed_logs_def caller_appends_def

text \<open>
  C8, as the claim states it: what \<^verbatim>\<open>get_status_logs\<close> returns is a copy, so that
  a change the caller makes to it is not seen by later reads. It fails: in a new run the
  log read is empty, and after the caller has appended an entry to the list that
  \<^verbatim>\<open>get_status_logs\<close> returned, the next read of the log holds that entry.
\<close>

theorem returned_log_list_is_an_alias_counterexample:
  "observed_logs fresh_session = Some []
   \<and> Option.bind (caller_appends (PStr ''forged'') fresh_session) observed_logs
       = Some [PStr ''forged'']"
  by (simp add: fresh_session_def heap_defs)

text \<open>
  C8, amended. The read operations return the stored object itself: when the state holds
  a list under \<^verbatim>\<open>status_logs\<close>, that is when \<^verbatim>\<open>get_workflow_data\<close> returns
  for this key a reference to a list of the store, \<^verbatim>\<open>get_status_logs\<close> returns the
  same reference and leaves the session as it is, and an entry the caller appends to the
  returned list is the last entry of the log that the next read returns.
\<close>

theorem reads_return_the_stored_object:
  assumes "get_workflow_data_heap ''status_logs'' s = Some (PRef a)"
    and "heap s a = Some (PList xs)"
  shows "get_status_logs_heap s = Some (PRef a, s)
       \<and> Option.bind (caller_appends x s) observed_logs = Some (xs @ [x])"
proof -
  from assms(1) obtain d kvs where d: "workflow_ref s = Some d" "heap s d = Some (PDict kvs)"
    by (auto simp: get_workflow_data_heap_def workflow_dict_def split: option.splits pyobj.splits)
  with assms(1) have k: "map_of kvs ''status_logs'' = Some (PRef a)"
    by (auto simp: get_workflow_data_heap_def workflow_dict_def split: option.splits)
  from d assms(2) have ne: "a \<noteq> d" by auto
  show ?thesis using d k ne assms(2) by (simp add: heap_defs)
qed

theorem reads_return_the_stored_object_witness:
  "get_workflow_data_heap ''status_logs'' fresh_session = Some (PRef 1)
   \<and> heap fresh_session 1 = Some (PList [])
   \<and> get_status_logs_heap fresh_session = Some (PRef 1, fresh_session)
   \<and> Option.bind (caller_appends (PStr ''forged'') fresh_session) observed_logs
       = Some ([] @ [PStr ''forged''])"
proof -
  have h1: "get_workflow_data_heap ''status_logs'' fresh_session = Some (PRef 1)"
    by (simp add: fresh_session_def heap_defs)
  have h2: "heap fresh_session 1 = Some (PList [])"
    by (simp add: fresh_session_def heap_defs)
  show ?thesis
    using h1 h2 reads_return_the_stored_object [OF h1 h2, of "PStr ''forged''"] by simp
qed

end
